theory Spec2Isabelle
  imports
    Main
    "HOL-Library.Multiset"
    "HOL-Library.Sublist"
    "HOL-Library.Char_ord"
    "HOL-Library.List_Lexorder"
begin

section \<open>Data model\<close>

text \<open>
  The tables of \<^verbatim>\<open>db/schema.ts\<close>. Ids are \<^verbatim>\<open>serial\<close> columns and timestamps are
  milliseconds since the epoch, both natural numbers here. The column
  \<^verbatim>\<open>duration_per_image\<close> is \<^verbatim>\<open>numeric(5,2)\<close>; it is kept exactly, in hundredths of a
  second. The field \<^verbatim>\<open>id\<close> of a project is called \<open>id'\<close>, since \<open>id\<close> is the identity
  function of HOL.
\<close>

datatype project_status = Pending | Processing | Completed | Failed

record video_project =
  id' :: nat
  name :: string
  status :: project_status
  output_path :: "string option"
  duration_per_image :: nat
  fps :: nat
  created_at :: nat
  updated_at :: nat

record image =
  image_id :: nat
  project_id :: nat
  filename :: string
  file_path :: string
  file_size :: nat
  mime_type :: string
  order_index :: int
  uploaded_at :: nat

text \<open>
  The store and the ledger. \<open>files\<close> maps the path of every regular file of the
  file system to its bytes; \<open>console\<close> collects the message (first argument) of every
  \<^verbatim>\<open>console.log\<close>, \<^verbatim>\<open>console.warn\<close> and \<^verbatim>\<open>console.error\<close> call, oldest first.
\<close>

type_synonym store = "string \<rightharpoonup> nat list"

record state =
  projects :: "nat \<rightharpoonup> video_project"
  images :: "image list"
  files :: store
  console :: "string list"

text \<open>
  Every \<^verbatim>\<open>new Error(...)\<close> of \<^verbatim>\<open>handlers/generate_video.ts\<close> is a constructor;
  \<open>FsError\<close> is a rejection of a \<^verbatim>\<open>fs\<close> call itself (\<^verbatim>\<open>mkdir\<close>, \<^verbatim>\<open>copyFile\<close>,
  \<^verbatim>\<open>rm\<close>, \<^verbatim>\<open>writeFile\<close>) with its message, and \<open>TypeError\<close> is the read of a field of
  \<^verbatim>\<open>undefined\<close>. The exit code of a child process is \<open>None\<close> (\<^verbatim>\<open>null\<close>) when a signal
  ended it.
\<close>

datatype error =
    ProjectNotFound nat
  | NoImagesFound nat
  | ImageFileNotFound string
  | FFmpegFailed "int option" string
  | FFmpegStartFailed string
  | FsError string
  | TypeError string

text \<open>
  What the world outside the handler does during one call. The ledger calls themselves are
  taken to succeed (they are atomic calls of an external collaborator); everything else
  that the handler awaits has its outcome here:
  \<^item> \<open>t_processing\<close>, \<open>t_completed\<close>, \<open>t_failed\<close>: the \<^verbatim>\<open>new Date()\<close> of the three status
    updates; \<open>now_output\<close>, \<open>now_temp\<close>: the two \<^verbatim>\<open>Date.now()\<close> of step 5;
  \<^item> \<open>image_rows\<close>: the rows the database answers to the ordered query of step 3;
  \<^item> \<open>mkdir_output_error\<close>, \<open>mkdir_temp_error\<close>, \<open>copy_error i\<close> (the copy of frame \<open>i\<close>),
    \<open>writeFile_error\<close>, \<open>rm_error\<close> (step 8), \<open>rm_cleanup_error\<close> (the inner \<^verbatim>\<open>catch\<close>): the
    message of the rejection of that \<^verbatim>\<open>fs\<close> call, \<open>None\<close> when it succeeds;
  \<^item> \<open>encoder\<close>: what happens to the child process, and \<open>encoder_output\<close>: the bytes it
    writes when it exits with status 0.
\<close>

datatype encoder_outcome =
    RequireThrows
  | SpawnThrows
  | ErrorEvent string
  | Closed "int option" string

record env =
  t_processing :: nat
  image_rows :: "image list"
  mkdir_output_error :: "string option"
  now_output :: nat
  now_temp :: nat
  mkdir_temp_error :: "string option"
  copy_error :: "nat \<Rightarrow> string option"
  encoder :: encoder_outcome
  encoder_output :: "nat list"
  writeFile_error :: "string option"
  rm_error :: "string option"
  rm_cleanup_error :: "string option"
  t_completed :: nat
  t_failed :: nat

section \<open>Strings and paths\<close>

text \<open>
  \<^verbatim>\<open>Number.prototype.toString\<close> on a non-negative integer, \<^verbatim>\<open>String.prototype.padStart\<close>,
  and the rendering of an exit code in a template literal.
\<close>

definition digit_char :: "nat \<Rightarrow> char" where
  "digit_char d = ''0123456789'' ! d"

function toString :: "nat \<Rightarrow> string" where
  "toString n =
     (if n < 10 then [digit_char n] else toString (n div 10) @ [digit_char (n mod 10)])"
  by pat_completeness auto
termination
  by (relation "measure id") auto

declare toString.simps [simp del]

definition padStart :: "nat \<Rightarrow> char \<Rightarrow> string \<Rightarrow> string" where
  "padStart w c s = replicate (w - length s) c @ s"

text \<open>
  Reading a digit string back, most significant digit first. The handler has no such
  function: it serves to show that \<open>toString\<close> is injective.
\<close>

definition parseDigits :: "string \<Rightarrow> nat" where
  "parseDigits s = foldl (\<lambda>a c. 10 * a + (of_char c - 48)) 0 s"


definition code_toString :: "int option \<Rightarrow> string" where
  "code_toString code =
     (case code of
        None \<Rightarrow> ''null''
      | Some c \<Rightarrow> (if c < 0 then ''-'' @ toString (nat (- c)) else toString (nat c)))"

fun message :: "error \<Rightarrow> string" where
  "message (ProjectNotFound pid) = ''Project with id '' @ toString pid @ '' not found''"
| "message (NoImagesFound pid) = ''No images found for project '' @ toString pid"
| "message (ImageFileNotFound p) = ''Image file not found: '' @ p"
| "message (FFmpegFailed code stderr) =
     ''FFmpeg process failed with exit code '' @ code_toString code @ '': '' @ stderr"
| "message (FFmpegStartFailed m) = ''Failed to start ffmpeg: '' @ m"
| "message (FsError m) = m"
| "message (TypeError m) = m"

text \<open>\<^verbatim>\<open>path.join\<close> on POSIX, for the three paths the handler builds.\<close>

definition outputDir :: string where
  "outputDir = ''uploads'' @ ''/'' @ ''videos''"

definition outputPath :: "nat \<Rightarrow> nat \<Rightarrow> string" where
  "outputPath pid now =
     outputDir @ ''/'' @ (''project_'' @ toString pid @ ''_'' @ toString now @ ''.mp4'')"

definition tempDir :: "nat \<Rightarrow> nat \<Rightarrow> string" where
  "tempDir pid now =
     ''uploads'' @ ''/'' @ ''temp'' @ ''/'' @ (''project_'' @ toString pid @ ''_'' @ toString now)"

definition tempImagePath :: "string \<Rightarrow> nat \<Rightarrow> string" where
  "tempImagePath dir i =
     dir @ ''/'' @ (''image_'' @ padStart 4 CHR ''0'' (toString i) @ ''.jpg'')"

section \<open>The store\<close>

text \<open>
  \<^verbatim>\<open>fs.copyFile\<close> fails when the outside world says so or when the source is absent.
  \<^verbatim>\<open>fs.rm(dir, {recursive: true, force: true})\<close> removes \<open>dir\<close> and everything below it
  and accepts an absent \<open>dir\<close>.
\<close>

definition copyFile :: "string option \<Rightarrow> string \<Rightarrow> string \<Rightarrow> store \<Rightarrow> error + store" where
  "copyFile err src dst fs =
     (case err of
        Some m \<Rightarrow> Inl (FsError m)
      | None \<Rightarrow>
          (case fs src of
             None \<Rightarrow> Inl (FsError (''ENOENT: no such file or directory, copyfile '' @ src))
           | Some bytes \<Rightarrow> Inr (fs(dst \<mapsto> bytes))))"

definition below :: "string \<Rightarrow> string \<Rightarrow> bool" where
  "below dir p = (p = dir \<or> prefix (dir @ ''/'') p)"

definition rm_recursive :: "string \<Rightarrow> store \<Rightarrow> store" where
  "rm_recursive dir fs = (\<lambda>p. if below dir p then None else fs p)"

section \<open>The ledger\<close>

text \<open>
  \<^verbatim>\<open>db.update(videoProjectsTable).set(...).where(eq(id, pid))\<close>: the row with that
  id, when there is one, is changed; with \<^verbatim>\<open>.returning()\<close> the changed rows come back.
\<close>

definition db_update :: "nat \<Rightarrow> (video_project \<Rightarrow> video_project) \<Rightarrow> state \<Rightarrow> state" where
  "db_update pid f st =
     (case projects st pid of
        None \<Rightarrow> st
      | Some p \<Rightarrow> st\<lparr>projects := (projects st)(pid \<mapsto> f p)\<rparr>)"

definition db_update_returning ::
  "nat \<Rightarrow> (video_project \<Rightarrow> video_project) \<Rightarrow> state \<Rightarrow> video_project list \<times> state" where
  "db_update_returning pid f st =
     (case projects st pid of
        None \<Rightarrow> ([], st)
      | Some p \<Rightarrow> ([f p], st\<lparr>projects := (projects st)(pid \<mapsto> f p)\<rparr>))"


definition log :: "string \<Rightarrow> state \<Rightarrow> state" where
  "log m st = st\<lparr>console := console st @ [m]\<rparr>"

section \<open>The encoder adapter: generateVideoWithFFmpeg\<close>

text \<open>
  The promise of \<^verbatim>\<open>generateVideoWithFFmpeg\<close>, settled by the first thing that happens:
  \<^item> \<open>RequireThrows\<close>: \<^verbatim>\<open>require('ffmpeg-static')\<close> throws;
  \<^item> \<open>SpawnThrows\<close>: the module loads and \<^verbatim>\<open>spawn\<close> throws synchronously; the same
    \<^verbatim>\<open>catch\<close> takes it;
  \<^item> \<open>ErrorEvent m\<close>: the child emits \<^verbatim>\<open>'error'\<close> with message \<open>m\<close>;
  \<^item> \<open>Closed code stderr\<close>: the child emits \<^verbatim>\<open>'close'\<close> with \<open>code\<close>, after \<open>stderr\<close> has
    been collected.
  ffmpeg is run with \<^verbatim>\<open>-y outputPath\<close>: exit status 0 is taken to mean that it has
  written its output, the bytes \<open>encoder_output\<close>, there. The arguments built from the frame
  paths, the duration and the frame rate go to the child only.
\<close>

definition placeholderContent :: "nat list" where
  "placeholderContent =
     [0x00, 0x00, 0x00, 0x20, 0x66, 0x74, 0x79, 0x70, 0x69, 0x73, 0x6F, 0x6D,
      0x00, 0x00, 0x02, 0x00, 0x69, 0x73, 0x6F, 0x6D, 0x69, 0x73, 0x6F, 0x32,
      0x6D, 0x70, 0x34, 0x31, 0x00, 0x00, 0x00, 0x08, 0x66, 0x72, 0x65, 0x65]"

definition placeholder_fallback :: "env \<Rightarrow> string \<Rightarrow> state \<Rightarrow> (error + unit) \<times> state" where
  "placeholder_fallback e outPath st =
     (let st1 = log ''ffmpeg-static not available, creating placeholder video file'' st;
          st2 = log ''To enable actual video generation, add ffmpeg-static to package.json dependencies'' st1
      in case writeFile_error e of
           Some m \<Rightarrow> (Inl (FsError m), st2)
         | None \<Rightarrow> (Inr (), st2\<lparr>files := (files st2)(outPath \<mapsto> placeholderContent)\<rparr>))"

definition generateVideoWithFFmpeg ::
  "env \<Rightarrow> string list \<Rightarrow> string \<Rightarrow> state \<Rightarrow> (error + unit) \<times> state" where
  "generateVideoWithFFmpeg e imagePaths outPath st =
     (case encoder e of
        RequireThrows \<Rightarrow> placeholder_fallback e outPath st
      | SpawnThrows \<Rightarrow> placeholder_fallback e outPath (log ''Starting ffmpeg with args:'' st)
      | Closed code stderr \<Rightarrow>
          (let st1 = log ''Starting ffmpeg with args:'' st in
           if code = Some 0
           then (Inr (),
                 log ''Video generation completed successfully''
                   (st1\<lparr>files := (files st1)(outPath \<mapsto> encoder_output e)\<rparr>))
           else (Inl (FFmpegFailed code stderr),
                 log ''FFmpeg stderr:'' (log ''FFmpeg process exited with code:'' st1)))
      | ErrorEvent m \<Rightarrow>
          (Inl (FFmpegStartFailed m),
           log ''Failed to start ffmpeg process:'' (log ''Starting ffmpeg with args:'' st)))"

section \<open>The orchestrator: generateVideo\<close>

text \<open>Step 4: the first image, in row order, whose file \<^verbatim>\<open>fs.access\<close> rejects.\<close>

fun verify_image_files :: "store \<Rightarrow> image list \<Rightarrow> error option" where
  "verify_image_files fs [] = None"
| "verify_image_files fs (img # rest) =
     (if fs (file_path img) = None then Some (ImageFileNotFound (file_path img))
      else verify_image_files fs rest)"

text \<open>
  Step 6, the loop over \<open>i\<close>: copy image \<open>i\<close> to its sequential name and push the name.
  The first failing copy ends the loop with its error.
\<close>

fun stage ::
  "(nat \<Rightarrow> string option) \<Rightarrow> string \<Rightarrow> image list \<Rightarrow> nat \<Rightarrow> store \<Rightarrow> (error + string list) \<times> store"
where
  "stage cerr dir [] i fs = (Inr [], fs)"
| "stage cerr dir (img # rest) i fs =
     (case copyFile (cerr i) (file_path img) (tempImagePath dir i) fs of
        Inl err \<Rightarrow> (Inl err, fs)
      | Inr fs1 \<Rightarrow>
          (case stage cerr dir rest (Suc i) fs1 of
             (Inl err, fs2) \<Rightarrow> (Inl err, fs2)
           | (Inr processedImages, fs2) \<Rightarrow> (Inr (tempImagePath dir i # processedImages), fs2)))"

text \<open>The inner \<^verbatim>\<open>try\<close> block: steps 6 to 9.\<close>

definition stage_and_encode ::
  "env \<Rightarrow> nat \<Rightarrow> string \<Rightarrow> string \<Rightarrow> image list \<Rightarrow> state \<Rightarrow> (error + video_project) \<times> state" where
  "stage_and_encode e pid outPath tmpDir imgs st =
     (case stage (copy_error e) tmpDir imgs 0 (files st) of
        (Inl err, fs1) \<Rightarrow> (Inl err, st\<lparr>files := fs1\<rparr>)
      | (Inr processedImages, fs1) \<Rightarrow>
          (case generateVideoWithFFmpeg e processedImages outPath (st\<lparr>files := fs1\<rparr>) of
             (Inl err, st2) \<Rightarrow> (Inl err, st2)
           | (Inr u, st2) \<Rightarrow>
               (case rm_error e of
                  Some m \<Rightarrow> (Inl (FsError m), st2)
                | None \<Rightarrow>
                    (case db_update_returning pid
                            (\<lambda>p. p\<lparr>status := Completed, output_path := Some outPath,
                                   updated_at := t_completed e\<rparr>)
                            (st2\<lparr>files := rm_recursive tmpDir (files st2)\<rparr>) of
                       ([], st3) \<Rightarrow>
                         (Inl (TypeError ''undefined is not an object (evaluating updatedProject.duration_per_image)''), st3)
                     | (updatedProject # _, st3) \<Rightarrow> (Inr updatedProject, st3)))))"

text \<open>The inner \<^verbatim>\<open>catch\<close>: remove the temp directory, log a failure of that, rethrow.\<close>

definition cleanup :: "env \<Rightarrow> string \<Rightarrow> state \<Rightarrow> state" where
  "cleanup e tmpDir st =
     (case rm_cleanup_error e of
        Some m \<Rightarrow> log ''Failed to clean up temp directory:'' st
      | None \<Rightarrow> st\<lparr>files := rm_recursive tmpDir (files st)\<rparr>)"

text \<open>The outer \<^verbatim>\<open>try\<close> block: steps 1 to 5, then the inner \<^verbatim>\<open>try\<close> and \<^verbatim>\<open>catch\<close>.\<close>

definition generate_body :: "env \<Rightarrow> state \<Rightarrow> nat \<Rightarrow> (error + video_project) \<times> state" where
  "generate_body e st pid =
     (let st1 = db_update pid (\<lambda>p. p\<lparr>status := Processing, updated_at := t_processing e\<rparr>) st in
      case projects st1 pid of
        None \<Rightarrow> (Inl (ProjectNotFound pid), st1)
      | Some project \<Rightarrow>
          (let imgs = image_rows e in
           if imgs = [] then (Inl (NoImagesFound pid), st1)
           else
             (case verify_image_files (files st1) imgs of
                Some err \<Rightarrow> (Inl err, st1)
              | None \<Rightarrow>
                  (case mkdir_output_error e of
                     Some m \<Rightarrow> (Inl (FsError m), st1)
                   | None \<Rightarrow>
                       (let outPath = outputPath pid (now_output e);
                            tmpDir = tempDir pid (now_temp e)
                        in case mkdir_temp_error e of
                             Some m \<Rightarrow> (Inl (FsError m), st1)
                           | None \<Rightarrow>
                               (case stage_and_encode e pid outPath tmpDir imgs st1 of
                                  (Inl err, st2) \<Rightarrow> (Inl err, cleanup e tmpDir st2)
                                | (Inr p, st2) \<Rightarrow> (Inr p, st2)))))))"

text \<open>
  The handler: the outer \<^verbatim>\<open>catch\<close> sets the status to \<^verbatim>\<open>failed\<close>, logs and rethrows the
  error it caught. The update of the status has a \<^verbatim>\<open>try\<close> of its own whose \<^verbatim>\<open>catch\<close> only
  logs; with a ledger whose calls succeed it is never entered.
\<close>

definition generateVideo :: "env \<Rightarrow> state \<Rightarrow> nat \<Rightarrow> (error + video_project) \<times> state" where
  "generateVideo e st pid =
     (case generate_body e st pid of
        (Inr p, st1) \<Rightarrow> (Inr p, st1)
      | (Inl err, st1) \<Rightarrow>
          (Inl err,
           log ''Video generation failed:''
             (db_update pid (\<lambda>p. p\<lparr>status := Failed, updated_at := t_failed e\<rparr>) st1)))"

section \<open>The earlier handler with a simulated encoder\<close>



section \<open>A test project\<close>

text \<open>
  The fixture of the handler's test suite (\<^verbatim>\<open>setupTestProject\<close>): one pending project with
  two images \<^verbatim>\<open>test1.jpg\<close> and \<^verbatim>\<open>test2.jpg\<close> on disk, and a run in which nothing outside
  fails and \<^verbatim>\<open>ffmpeg-static\<close> is not installed.
\<close>

definition test_project :: video_project where
  "test_project =
     \<lparr>id' = 1, name = ''Test Video Project'', status = Pending, output_path = None,
      duration_per_image = 250, fps = 24, created_at = 0, updated_at = 0\<rparr>"

definition test_image :: "nat \<Rightarrow> string \<Rightarrow> int \<Rightarrow> image" where
  "test_image i file k =
     \<lparr>image_id = i, project_id = 1, filename = file,
      file_path = ''uploads/images/'' @ file, file_size = 1024,
      mime_type = ''image/jpeg'', order_index = k, uploaded_at = 0\<rparr>"

definition setupTestProject :: state where
  "setupTestProject =
     \<lparr>projects = [1 \<mapsto> test_project],
      images = [test_image 1 ''test1.jpg'' 0, test_image 2 ''test2.jpg'' 1],
      files = [''uploads/images/test1.jpg'' \<mapsto> map of_char ''fake image 1'',
               ''uploads/images/test2.jpg'' \<mapsto> map of_char ''fake image 2''],
      console = []\<rparr>"

definition test_run :: env where
  "test_run =
     \<lparr>t_processing = 10,
      image_rows = [test_image 1 ''test1.jpg'' 0, test_image 2 ''test2.jpg'' 1],
      mkdir_output_error = None, now_output = 1000, now_temp = 1001,
      mkdir_temp_error = None, copy_error = (\<lambda>i. None), encoder = RequireThrows,
      encoder_output = [], writeFile_error = None, rm_error = None,
      rm_cleanup_error = None, t_completed = 20, t_failed = 30\<rparr>"

section \<open>Conditions on a run\<close>




section \<open>Repeated attempts\<close>


section \<open>Decimal rendering and the allocated paths\<close>

lemma digit_char_cases:
  assumes "d < 10"
  shows "d \<in> {0, 1, 2, 3, 4, 5, 6, 7, 8, 9::nat}"
  using assms by auto

lemma of_char_digit_char: "d < 10 \<Longrightarrow> of_char (digit_char d) = 48 + d"
  using digit_char_cases [of d] by (auto simp: digit_char_def)

lemma digit_char_in_digits: "d < 10 \<Longrightarrow> digit_char d \<in> set ''0123456789''"
  using digit_char_cases [of d] by (auto simp: digit_char_def)

lemma toString_digits: "set (toString n) \<subseteq> set ''0123456789''"
proof (induction n rule: toString.induct)
  case (1 n)
  show ?case
  proof (cases "n < 10")
    case True
    then show ?thesis
      using digit_char_in_digits [of n] by (subst toString.simps) simp
  next
    case False
    then have "set (toString (n div 10)) \<subseteq> set ''0123456789''"
      using "1.IH" by simp
    moreover have "digit_char (n mod 10) \<in> set ''0123456789''"
      by (rule digit_char_in_digits) simp
    ultimately show ?thesis
      using False by (subst toString.simps) simp
  qed
qed

lemma parseDigits_snoc: "parseDigits (s @ [c]) = 10 * parseDigits s + (of_char c - 48)"
  by (simp add: parseDigits_def)

lemma parseDigits_toString: "parseDigits (toString n) = n"
proof (induction n rule: toString.induct)
  case (1 n)
  show ?case
  proof (cases "n < 10")
    case True
    then show ?thesis
      by (subst toString.simps) (simp add: parseDigits_def of_char_digit_char)
  next
    case False
    then have "parseDigits (toString (n div 10)) = n div 10"
      using "1.IH" by simp
    then show ?thesis
      using False
      by (subst toString.simps) (simp add: parseDigits_snoc of_char_digit_char)
  qed
qed

lemma toString_inject: "toString m = toString n \<longleftrightarrow> m = n"
  by (metis parseDigits_toString)

lemma underscore_not_digit: "CHR ''_'' \<notin> set (toString n)"
  using toString_digits [of n] by auto

lemma split_at_separator:
  assumes "a @ c # b = a' @ c # b'" and "c \<notin> set a" and "c \<notin> set a'"
  shows "a = a' \<and> b = b'"
  using assms
proof (induction a arbitrary: a')
  case Nil
  then show ?case by (cases a') auto
next
  case (Cons x a)
  then show ?case by (cases a') auto
qed

lemma outputPath_inject: "outputPath p1 t1 = outputPath p2 t2 \<longleftrightarrow> p1 = p2 \<and> t1 = t2"
proof
  assume "outputPath p1 t1 = outputPath p2 t2"
  then have "toString p1 @ CHR ''_'' # (toString t1 @ ''.mp4'') = toString p2 @ CHR ''_'' # (toString t2 @ ''.mp4'')"
    by (simp add: outputPath_def)
  then have "toString p1 = toString p2 \<and> toString t1 @ ''.mp4'' = toString t2 @ ''.mp4''"
    by (rule split_at_separator) (rule underscore_not_digit)+
  then show "p1 = p2 \<and> t1 = t2"
    by (simp add: toString_inject)
next
  assume "p1 = p2 \<and> t1 = t2"
  then show "outputPath p1 t1 = outputPath p2 t2" by simp
qed

section \<open>What each block changes\<close>

lemma projects_log [simp]: "projects (log m st) = projects st"
  and files_log [simp]: "files (log m st) = files st"
  and images_log [simp]: "images (log m st) = images st"
  by (simp_all add: log_def)

lemma not_below_outputPath: "\<not> below (tempDir p t) (outputPath p' t')"
  by (simp add: below_def tempDir_def outputPath_def outputDir_def)

lemma below_tempImagePath: "below dir (tempImagePath dir i)"
  by (simp add: below_def tempImagePath_def)

lemma copyFile_outside:
  "copyFile err src dst fs = Inr fs' \<Longrightarrow> p \<noteq> dst \<Longrightarrow> fs' p = fs p"
  by (auto simp: copyFile_def split: option.splits)

lemma stage_outside:
  "stage cerr dir imgs i fs = (r, fs') \<Longrightarrow> \<not> below dir p \<Longrightarrow> fs' p = fs p"
proof (induction imgs arbitrary: i fs r fs')
  case Nil
  then show ?case by simp
next
  case (Cons img rest)
  show ?case
  proof (cases "copyFile (cerr i) (file_path img) (tempImagePath dir i) fs")
    case (Inl err)
    with Cons.prems show ?thesis by simp
  next
    case (Inr fs1)
    obtain r2 fs2 where rest: "stage cerr dir rest (Suc i) fs1 = (r2, fs2)"
      by (cases "stage cerr dir rest (Suc i) fs1")
    from Cons.prems(1) Inr rest have "fs' = fs2"
      by (auto split: sum.splits)
    moreover have "fs2 p = fs1 p"
      using Cons.IH [OF rest Cons.prems(2)] .
    moreover have "p \<noteq> tempImagePath dir i"
      using Cons.prems(2) below_tempImagePath by auto
    then have "fs1 p = fs p"
      using Inr by (rule copyFile_outside [rotated])
    ultimately show ?thesis by simp
  qed
qed

lemma encoder_effect:
  assumes "generateVideoWithFFmpeg e ps out st = (r, st')"
  shows "projects st' = projects st \<and> images st' = images st \<and>
         (case r of
            Inl err \<Rightarrow> files st' = files st
          | Inr u \<Rightarrow> files st' out \<noteq> None \<and> (\<forall>p. p \<noteq> out \<longrightarrow> files st' p = files st p))"
  using assms
  by (auto simp: generateVideoWithFFmpeg_def placeholder_fallback_def Let_def
           split: encoder_outcome.splits option.splits if_splits)


lemma stage_and_encode_Inr:
  assumes "stage_and_encode e pid out tmp imgs st = (Inr q, st')"
  shows "\<exists>p0. projects st pid = Some p0 \<and>
           q = p0\<lparr>status := Completed, output_path := Some out, updated_at := t_completed e\<rparr> \<and>
           projects st' = (projects st)(pid \<mapsto> q) \<and> images st' = images st \<and>
           (\<not> below tmp out \<longrightarrow> files st' out \<noteq> None) \<and>
           (\<forall>p. below tmp p \<longrightarrow> files st' p = None) \<and>
           (\<forall>p. \<not> below tmp p \<longrightarrow> p \<noteq> out \<longrightarrow> files st' p = files st p)"
proof -
  obtain r1 fs1 where s: "stage (copy_error e) tmp imgs 0 (files st) = (r1, fs1)"
    by (cases "stage (copy_error e) tmp imgs 0 (files st)")
  have out1: "\<forall>p. \<not> below tmp p \<longrightarrow> fs1 p = files st p"
    using stage_outside [OF s] by blast
  from assms s obtain ps where r1: "r1 = Inr ps"
    by (cases r1) (auto simp: stage_and_encode_def)
  obtain r2 st2 where g: "generateVideoWithFFmpeg e ps out (st\<lparr>files := fs1\<rparr>) = (r2, st2)"
    by (cases "generateVideoWithFFmpeg e ps out (st\<lparr>files := fs1\<rparr>)")
  from assms s r1 g obtain u where r2: "r2 = Inr u"
    by (cases r2) (auto simp: stage_and_encode_def)
  note eff = encoder_effect [OF g, unfolded r2, simplified]
  from assms s r1 g r2 eff out1 show ?thesis
    by (auto simp: stage_and_encode_def db_update_returning_def rm_recursive_def
             split: option.splits list.splits)
qed

lemma projects_cleanup [simp]: "projects (cleanup e tmp st) = projects st"
  and images_cleanup [simp]: "images (cleanup e tmp st) = images st"
  by (simp_all add: cleanup_def split: option.splits)



lemma generate_body_Inr:
  assumes "generate_body e st pid = (Inr q, st')"
  shows "\<exists>p0. projects st pid = Some p0 \<and>
           q = p0\<lparr>status := Completed, output_path := Some (outputPath pid (now_output e)),
                  updated_at := t_completed e\<rparr> \<and>
           projects st' = (projects st)(pid \<mapsto> q) \<and>
           files st' (outputPath pid (now_output e)) \<noteq> None"
proof -
  let ?st1 = "db_update pid (\<lambda>p. p\<lparr>status := Processing, updated_at := t_processing e\<rparr>) st"
  let ?out = "outputPath pid (now_output e)"
  let ?tmp = "tempDir pid (now_temp e)"
  from assms have se: "stage_and_encode e pid ?out ?tmp (image_rows e) ?st1 = (Inr q, st')"
    by (auto simp: generate_body_def Let_def split: option.splits if_splits sum.splits prod.splits)
  from stage_and_encode_Inr [OF se] not_below_outputPath [of pid "now_temp e" pid "now_output e"]
  show ?thesis
    by (auto simp: db_update_def split: option.splits)
qed

section \<open>Evaluating a run\<close>

lemma replicate_numeral: "replicate (numeral k) x = x # replicate (pred_numeral k) x"
  by (simp add: numeral_eq_Suc)

lemmas run_defs =
  replicate_numeral generateVideo_def generate_body_def stage_and_encode_def cleanup_def
  generateVideoWithFFmpeg_def placeholder_fallback_def db_update_def db_update_returning_def
  log_def copyFile_def rm_recursive_def below_def tempImagePath_def tempDir_def outputPath_def
  outputDir_def padStart_def toString.simps digit_char_def Let_def

lemmas test_defs = setupTestProject_def test_run_def test_image_def test_project_def

section \<open>Terminal status of an attempt\<close>





section \<open>Runs that reach the encoder\<close>

lemma files_db_update [simp]: "files (db_update pid f st) = files st"
  and images_db_update [simp]: "images (db_update pid f st) = images st"
  and console_db_update [simp]: "console (db_update pid f st) = console st"
  by (simp_all add: db_update_def split: option.splits)








section \<open>A missing image file\<close>



section \<open>A failing removal of the temp directory after a successful encode\<close>



section \<open>What the handler returns and persists\<close>

lemma generateVideo_Inr:
  assumes "generateVideo e st pid = (Inr q, st')"
  shows "\<exists>p0. projects st pid = Some p0 \<and>
           q = p0\<lparr>status := Completed, output_path := Some (outputPath pid (now_output e)),
                  updated_at := t_completed e\<rparr> \<and>
           projects st' = (projects st)(pid \<mapsto> q) \<and>
           files st' (outputPath pid (now_output e)) \<noteq> None"
proof -
  from assms have "generate_body e st pid = (Inr q, st')"
    by (auto simp: generateVideo_def split: prod.splits sum.splits)
  then show ?thesis
    by (rule generate_body_Inr)
qed


section \<open>The allocated output path\<close>

text \<open>
  C8, as the handler has it. The output path is built from the project id and the
  millisecond clock: the paths that two successful attempts return are the same exactly
  when the attempts are for the same project and read the same clock value. Attempts for
  different projects, or at different milliseconds, never collide.
\<close>

theorem output_paths_of_attempts:
  assumes "generateVideo e1 s1 p1 = (Inr q1, s1')"
    and "generateVideo e2 s2 p2 = (Inr q2, s2')"
  shows "output_path q1 = output_path q2 \<longleftrightarrow> p1 = p2 \<and> now_output e1 = now_output e2"
proof -
  from generateVideo_Inr [OF assms(1)] have "output_path q1 = Some (outputPath p1 (now_output e1))"
    by auto
  moreover from generateVideo_Inr [OF assms(2)]
  have "output_path q2 = Some (outputPath p2 (now_output e2))"
    by auto
  ultimately show ?thesis
    by (simp add: outputPath_inject)
qed

theorem output_paths_of_attempts_witness:
  "fst (generateVideo test_run setupTestProject 1) =
     Inr (test_project\<lparr>status := Completed,
            output_path := Some ''uploads/videos/project_1_1000.mp4'', updated_at := 20\<rparr>) \<and>
   fst (generateVideo (test_run\<lparr>now_output := 2000\<rparr>) setupTestProject 1) =
     Inr (test_project\<lparr>status := Completed,
            output_path := Some ''uploads/videos/project_1_2000.mp4'', updated_at := 20\<rparr>) \<and>
   output_path (test_project\<lparr>status := Completed,
            output_path := Some ''uploads/videos/project_1_1000.mp4'', updated_at := 20\<rparr>) \<noteq>
   output_path (test_project\<lparr>status := Completed,
            output_path := Some ''uploads/videos/project_1_2000.mp4'', updated_at := 20\<rparr>)"
proof -
  let ?q1 = "test_project\<lparr>status := Completed,
            output_path := Some ''uploads/videos/project_1_1000.mp4'', updated_at := 20\<rparr>"
  let ?q2 = "test_project\<lparr>status := Completed,
            output_path := Some ''uploads/videos/project_1_2000.mp4'', updated_at := 20\<rparr>"
  let ?e2 = "test_run\<lparr>now_output := 2000\<rparr>"
  have 1: "generateVideo test_run setupTestProject 1 =
      (Inr ?q1, snd (generateVideo test_run setupTestProject 1))"
    by (rule prod_eqI) (simp_all add: run_defs test_defs)
  have 2: "generateVideo ?e2 setupTestProject 1 = (Inr ?q2, snd (generateVideo ?e2 setupTestProject 1))"
    by (rule prod_eqI) (simp_all add: run_defs test_defs)
  from output_paths_of_attempts [OF 1 2] have "output_path ?q1 \<noteq> output_path ?q2"
    by (simp add: test_run_def)
  with 1 2 show ?thesis
    by (metis fst_conv)
qed

text \<open>
  Two attempts for project 1 that read the same clock value 1000, the second started when
  the first has returned: both are allocated \<^verbatim>\<open>uploads/videos/project_1_1000.mp4\<close>, and
  the second overwrites the placeholder file of the first with the encoder's output.
\<close>

theorem same_millisecond_same_output_path:
  "fst (generateVideo test_run setupTestProject 1) =
     Inr (test_project\<lparr>status := Completed,
            output_path := Some ''uploads/videos/project_1_1000.mp4'', updated_at := 20\<rparr>) \<and>
   fst (generateVideo (test_run\<lparr>encoder := Closed (Some 0) [], encoder_output := [1, 2, 3]\<rparr>)
          (snd (generateVideo test_run setupTestProject 1)) 1) =
     Inr (test_project\<lparr>status := Completed,
            output_path := Some ''uploads/videos/project_1_1000.mp4'', updated_at := 20\<rparr>) \<and>
   files (snd (generateVideo test_run setupTestProject 1)) ''uploads/videos/project_1_1000.mp4'' =
     Some placeholderContent \<and>
   files (snd (generateVideo (test_run\<lparr>encoder := Closed (Some 0) [], encoder_output := [1, 2, 3]\<rparr>)
          (snd (generateVideo test_run setupTestProject 1)) 1))
     ''uploads/videos/project_1_1000.mp4'' = Some [1, 2, 3]"
  by (simp add: run_defs test_defs)

section \<open>The output path over several attempts\<close>




section \<open>Images with equal order index\<close>




section \<open>Exit status of the encoder\<close>

text \<open>
  C7, as the adapter has it. Once the child process is spawned, exit status 0 is the only
  outcome that resolves the promise; any other exit status (also \<^verbatim>\<open>null\<close>, after a signal)
  rejects it with an error whose message holds the exit code and the collected stderr
  text; a spawn failure reported by the \<^verbatim>\<open>'error'\<close> event rejects it with an error whose
  message holds the message of that event, and neither an exit code nor stderr text.
\<close>

theorem child_exit_status_decides:
  "(encoder e = Closed code stderr \<longrightarrow>
      (fst (generateVideoWithFFmpeg e imagePaths out st) = Inr () \<longleftrightarrow> code = Some 0) \<and>
      (code \<noteq> Some 0 \<longrightarrow>
         fst (generateVideoWithFFmpeg e imagePaths out st) = Inl (FFmpegFailed code stderr) \<and>
         message (FFmpegFailed code stderr) =
           ''FFmpeg process failed with exit code '' @ code_toString code @ '': '' @ stderr)) \<and>
   (encoder e = ErrorEvent m \<longrightarrow>
      fst (generateVideoWithFFmpeg e imagePaths out st) = Inl (FFmpegStartFailed m) \<and>
      message (FFmpegStartFailed m) = ''Failed to start ffmpeg: '' @ m)"
  by (simp add: generateVideoWithFFmpeg_def Let_def)

theorem child_exit_status_decides_witness:
  "fst (generateVideoWithFFmpeg (test_run\<lparr>encoder := Closed (Some 1) ''boom''\<rparr>)
          [''uploads/temp/project_1_1001/image_0000.jpg''] ''uploads/videos/project_1_1000.mp4''
          setupTestProject) = Inl (FFmpegFailed (Some 1) ''boom'') \<and>
   message (FFmpegFailed (Some 1) ''boom'') = ''FFmpeg process failed with exit code 1: boom''"
proof -
  let ?e = "test_run\<lparr>encoder := Closed (Some 1) ''boom''\<rparr>"
  have 1: "encoder ?e = Closed (Some 1) ''boom''"
    by simp
  have 2: "(Some 1 :: int option) \<noteq> Some 0"
    by simp
  from child_exit_status_decides
    [of ?e "Some 1" "''boom''" "[''uploads/temp/project_1_1001/image_0000.jpg'']"
      "''uploads/videos/project_1_1000.mp4''" setupTestProject] 1 2
  show ?thesis
    by (simp add: code_toString_def toString.simps digit_char_def)
qed

text \<open>
  The binary is not where \<^verbatim>\<open>ffmpeg-static\<close> says: the child emits \<^verbatim>\<open>'error'\<close>. The error
  of the adapter has the message of the event and nothing else.
\<close>

theorem spawn_failure_error_has_message_only:
  "fst (generateVideoWithFFmpeg (test_run\<lparr>encoder := ErrorEvent ''spawn ffmpeg ENOENT''\<rparr>)
          [''uploads/temp/project_1_1001/image_0000.jpg''] ''uploads/videos/project_1_1000.mp4''
          setupTestProject) = Inl (FFmpegStartFailed ''spawn ffmpeg ENOENT'') \<and>
   message (FFmpegStartFailed ''spawn ffmpeg ENOENT'') =
     ''Failed to start ffmpeg: spawn ffmpeg ENOENT''"
  by (simp add: generateVideoWithFFmpeg_def test_run_def)

section \<open>The placeholder fallback\<close>





section \<open>Every failure\<close>











section \<open>Staged frame names\<close>


























end
